theory Spec2Isabelle
  imports Complex_Main
begin

section \<open>Documents, the store and responses\<close>

text \<open>
  The backend keeps three collections in a document store: users, menu items and
  categories. A collection is modelled as the list of its documents in insertion order,
  which is the order \<^verbatim>\<open>find\<close> returns them in. An identifier is modelled by its
  text form, the one that the user router compares with \<^verbatim>\<open>_id.toString()\<close>. A URL
  parameter is any string: the driver casts it to an identifier before it queries, and a
  parameter that does not cast makes the call throw, which the \<^verbatim>\<open>catch\<close> branch of the
  handler forwards to the error responder of \<^verbatim>\<open>server.js\<close> (\<open>error_responder\<close>). The
  store itself is modelled as reachable: a call whose arguments cast resolves.
\<close>

type_synonym objectId = string

text \<open>
  \<^verbatim>\<open>models/UserModel.js\<close> is not among the sources; the fields are the ones the user
  router and the tests read and write.
\<close>

record user =
  user_id :: objectId
  user_email :: string
  user_password :: string
  user_name :: string
  user_birthday :: "string option"
  user_admin :: bool

record category =
  category_id :: objectId
  category_name :: string

text \<open>
  An item document as it reaches \<^verbatim>\<open>itemSchema\<close>: every path may be absent, the schema
  decides at save time which ones must be there. \<^verbatim>\<open>Number\<close> paths hold rationals.
\<close>

record item =
  item_id :: objectId
  item_name :: "string option"
  item_category :: "objectId option"
  item_price :: "rat option"
  item_quantity :: "rat option"
  item_description :: "string option"
  item_image :: "string option"

record db =
  users :: "user list"
  items :: "item list"
  categories :: "category list"

datatype json =
    JString string
  | JUser user
  | JItem item
  | JCategory category
  | JArray "json list"
  | JObject "(string \<times> json) list"

datatype body =
    Json "(string \<times> json) list"
  | Cannot_page string "string list"
  | Error_page
  | No_content

record response =
  status :: nat
  body :: body

text \<open>\<^verbatim>\<open>response.status(n).json(obj)\<close>; \<^verbatim>\<open>response.json(obj)\<close> alone answers 200.\<close>

definition status_json :: "nat \<Rightarrow> (string \<times> json) list \<Rightarrow> response" where
  "status_json n obj = \<lparr>status = n, body = Json obj\<rparr>"

definition plain_json :: "(string \<times> json) list \<Rightarrow> response" where
  "plain_json obj = status_json 200 obj"

text \<open>
  The error a handler forwards with \<^verbatim>\<open>next(error)\<close>: its \<^verbatim>\<open>status\<close> property, when it
  has one, and its \<^verbatim>\<open>message\<close>. A handler either answers or forwards an error.
\<close>

record js_error =
  error_status :: "nat option"
  error_message :: string

datatype outcome = Respond response | Next js_error

text \<open>
  The cast of the driver, which is not part of the repository: \<open>castObjectId\<close> gives the
  identifier a string stands for, if any, and \<open>castErrorMessage\<close> the message of the
  error thrown for a path and a value that does not cast. That error has no
  \<^verbatim>\<open>status\<close> property.
\<close>

record mongoose =
  castObjectId :: "string \<Rightarrow> objectId option"
  castErrorMessage :: "string \<Rightarrow> string \<Rightarrow> string"

definition CastError :: "mongoose \<Rightarrow> string \<Rightarrow> string \<Rightarrow> js_error" where
  "CastError mg path v = \<lparr>error_status = None, error_message = castErrorMessage mg path v\<rparr>"

definition cast_param :: "mongoose \<Rightarrow> string \<Rightarrow> string \<Rightarrow> js_error + objectId" where
  "cast_param mg path v =
     (case castObjectId mg v of
        None \<Rightarrow> Inl (CastError mg path v)
      | Some oid \<Rightarrow> Inr oid)"

text \<open>\<^verbatim>\<open>deleteOne\<close> and the write of a changed document touch the first match only.\<close>

fun deleteOne :: "('a \<Rightarrow> bool) \<Rightarrow> 'a list \<Rightarrow> 'a list" where
  "deleteOne P [] = []"
| "deleteOne P (x # xs) = (if P x then xs else x # deleteOne P xs)"

fun replaceOne :: "('a \<Rightarrow> bool) \<Rightarrow> 'a \<Rightarrow> 'a list \<Rightarrow> 'a list" where
  "replaceOne P y [] = []"
| "replaceOne P y (x # xs) = (if P x then y # xs else x # replaceOne P y xs)"

definition ItemModel_find_all :: "db \<Rightarrow> item list" where
  "ItemModel_find_all d = items d"

definition ItemModel_findById :: "db \<Rightarrow> objectId \<Rightarrow> item option" where
  "ItemModel_findById d itemId = find (\<lambda>i. item_id i = itemId) (items d)"

definition ItemModel_find_category :: "db \<Rightarrow> objectId \<Rightarrow> item list" where
  "ItemModel_find_category d categoryId =
     filter (\<lambda>i. item_category i = Some categoryId) (items d)"

definition CategoryModel_find_all :: "db \<Rightarrow> category list" where
  "CategoryModel_find_all d = categories d"

definition CategoryModel_findById :: "db \<Rightarrow> objectId \<Rightarrow> category option" where
  "CategoryModel_findById d categoryId =
     find (\<lambda>c. category_id c = categoryId) (categories d)"

definition UserModel_find_all :: "db \<Rightarrow> user list" where
  "UserModel_find_all d = users d"

definition UserModel_findOne_email :: "db \<Rightarrow> string \<Rightarrow> user option" where
  "UserModel_findOne_email d email = find (\<lambda>u. user_email u = email) (users d)"

definition UserModel_findById :: "db \<Rightarrow> objectId \<Rightarrow> user option" where
  "UserModel_findById d userId = find (\<lambda>u. user_id u = userId) (users d)"

definition UserModel_findByIdAndDelete :: "db \<Rightarrow> objectId \<Rightarrow> db" where
  "UserModel_findByIdAndDelete d userId =
     d\<lparr>users := deleteOne (\<lambda>u. user_id u = userId) (users d)\<rparr>"


section \<open>The menu router (controllers/MenuRouter.js)\<close>

text \<open>\<^verbatim>\<open>router.get("/")\<close>: all items.\<close>

definition listItems :: "db \<Rightarrow> response" where
  "listItems d = plain_json [(''result'', JArray (map JItem (ItemModel_find_all d)))]"

text \<open>\<^verbatim>\<open>router.get("/categories")\<close>: all categories.\<close>

definition listCategories :: "db \<Rightarrow> response" where
  "listCategories d =
     plain_json [(''result'', JArray (map JCategory (CategoryModel_find_all d)))]"

text \<open>
  \<^verbatim>\<open>router.get("/:id")\<close>: one item by identifier. \<^verbatim>\<open>findById(itemId)\<close> casts the
  parameter at the path \<^verbatim>\<open>_id\<close>; the \<^verbatim>\<open>catch\<close> branch forwards the error of a failed
  cast.
\<close>

definition getItemById :: "mongoose \<Rightarrow> db \<Rightarrow> string \<Rightarrow> outcome" where
  "getItemById mg d itemId =
     (case cast_param mg ''_id'' itemId of
        Inl error \<Rightarrow> Next error
      | Inr oid \<Rightarrow>
          (case ItemModel_findById d oid of
             None \<Rightarrow> Respond (status_json 404 [(''message'', JString ''Item not found'')])
           | Some item \<Rightarrow> Respond (plain_json [(''result'', JItem item)])))"

text \<open>
  \<^verbatim>\<open>router.get("/categories/:categoryId")\<close>: the items of one category.
  \<^verbatim>\<open>find({ category: categoryId })\<close> casts the parameter at the path \<^verbatim>\<open>category\<close>, which
  the schema declares an identifier; the \<^verbatim>\<open>catch\<close> branch forwards the error of a failed
  cast.
\<close>

definition listItemsByCategory :: "mongoose \<Rightarrow> db \<Rightarrow> string \<Rightarrow> outcome" where
  "listItemsByCategory mg d categoryId =
     (case cast_param mg ''category'' categoryId of
        Inl error \<Rightarrow> Next error
      | Inr oid \<Rightarrow>
          (let found = ItemModel_find_category d oid in
           if length found = 0
           then Respond (status_json 404
                  [(''message'', JString ''There are currently no items in this category.'')])
           else Respond (plain_json [(''result'', JArray (map JItem found))])))"


section \<open>The user router (controllers/UserRouter.js)\<close>

text \<open>
  What the router takes from modules that are not among the sources
  (\<^verbatim>\<open>bcryptjs\<close>, \<^verbatim>\<open>utils/auth\<close>) or from the token primitive: they are parameters of
  the model. \<open>bcrypt_hash\<close> is \<^verbatim>\<open>bcrypt.hash(_, 10)\<close> with the salt of the call fixed.
  \<^verbatim>\<open>createJwt\<close> is called with an identifier by the signup route and with a user
  document by the login and update routes. The bodies of the sign-up and login requests
  carry the fields of the spec's signatures, \<^verbatim>\<open>signup(email, password, name, birthday?)\<close>
  and \<^verbatim>\<open>login(email, password)\<close>; every field of a patch may be absent.
\<close>

datatype jwt_subject = Subject_id objectId | Subject_user user

record services =
  bcrypt_hash :: "string \<Rightarrow> string"
  bcrypt_compare :: "string \<Rightarrow> string \<Rightarrow> bool"
  createJwt :: "jwt_subject \<Rightarrow> string"
  decodedJwt :: "string \<Rightarrow> json"
  jwt_verify :: "string \<Rightarrow> objectId option"

record signup_body =
  signup_email :: string
  signup_password :: string
  signup_name :: string
  signup_birthday :: "string option"

record login_body =
  login_email :: string
  login_password :: string

record patch_body =
  patch_name :: "string option"
  patch_email :: "string option"
  patch_password :: "string option"
  patch_birthday :: "string option"

text \<open>
  \<^verbatim>\<open>if (field)\<close> on a field of the request body: an absent field and the empty string
  are falsy, every other string is truthy.
\<close>

definition truthy :: "string option \<Rightarrow> string option" where
  "truthy field = (case field of None \<Rightarrow> None | Some s \<Rightarrow> if s = [] then None else Some s)"

text \<open>
  Modelled from the spec: \<^verbatim>\<open>models/UserModel.js\<close> is missing. \<^verbatim>\<open>new UserModel({...})\<close>
  builds the document from the four fields the signup route passes, under the identifier
  the driver assigns; the admin flag, which the route does not pass, is the elevated flag
  of the glossary and starts false.
\<close>

definition UserModel_new :: "objectId \<Rightarrow> signup_body \<Rightarrow> user" where
  "UserModel_new newId b =
     \<lparr>user_id = newId, user_email = signup_email b, user_password = signup_password b,
      user_name = signup_name b, user_birthday = signup_birthday b, user_admin = False\<rparr>"

text \<open>
  Modelled from the spec: \<^verbatim>\<open>models/UserModel.js\<close> is missing, and the signup route
  itself does not hash. Section 4.4 has signup hash the password and then persist, section
  3 has the stored password hashed: the first save of a new user document replaces the
  password by its hash and appends the document to the collection.
\<close>

definition UserModel_save_new :: "services \<Rightarrow> db \<Rightarrow> user \<Rightarrow> db \<times> user" where
  "UserModel_save_new sv d doc =
     (let saved = doc\<lparr>user_password := bcrypt_hash sv (user_password doc)\<rparr>
      in (d\<lparr>users := users d @ [saved]\<rparr>, saved))"

text \<open>
  Modelled from the spec: \<^verbatim>\<open>models/UserModel.js\<close> is missing. Section 4.4 has the update
  route hash a new password before storing, which the route does itself: saving a
  document that is already stored writes it, as the route prepared it, over the stored
  document of the same identifier.
\<close>

definition UserModel_save :: "db \<Rightarrow> user \<Rightarrow> db" where
  "UserModel_save d doc =
     d\<lparr>users := replaceOne (\<lambda>u. user_id u = user_id doc) doc (users d)\<rparr>"

text \<open>\<^verbatim>\<open>router.get("/")\<close>: all users.\<close>

definition getUsers :: "db \<Rightarrow> response" where
  "getUsers d =
     (let result = UserModel_find_all d in
      plain_json [(''message'', JString ''User router operation''),
                  (''result'', JArray (map JUser result))])"

text \<open>\<^verbatim>\<open>router.post("/signup")\<close>.\<close>

definition signup :: "services \<Rightarrow> db \<Rightarrow> objectId \<Rightarrow> signup_body \<Rightarrow> db \<times> response" where
  "signup sv d newId b =
     (case UserModel_findOne_email d (signup_email b) of
        Some existingUser \<Rightarrow>
          (d, status_json 400
                [(''message'', JString ''A profile with this email already exists.'')])
      | None \<Rightarrow>
          (let (d', newUser) = UserModel_save_new sv d (UserModel_new newId b);
               token = createJwt sv (Subject_id (user_id newUser));
               decodedJwtData = decodedJwt sv token
           in (d', status_json 201
                     [(''message'', JString (''Thank you for signing up to Three Beans ''
                                              @ signup_name b @ ''!'')),
                      (''newUser'', JUser newUser),
                      (''token'', JString token),
                      (''decodedJwt'', decodedJwtData)])))"

text \<open>\<^verbatim>\<open>router.post("/login")\<close>.\<close>

definition login :: "services \<Rightarrow> db \<Rightarrow> login_body \<Rightarrow> response" where
  "login sv d b =
     (case UserModel_findOne_email d (login_email b) of
        None \<Rightarrow>
          status_json 404
            [(''status'', JString ''failed''), (''data'', JArray []),
             (''message'', JString ''Email not found.'')]
      | Some user \<Rightarrow>
          (let isPassword = bcrypt_compare sv (login_password b) (user_password user) in
           if \<not> isPassword
           then status_json 401
                  [(''status'', JString ''failed''), (''data'', JArray []),
                   (''message'',
                    JString ''Your password is incorrect, please double check and try again.'')]
           else (let token = createJwt sv (Subject_user user) in
                 status_json 200
                   [(''message'', JString (user_name user @ '' has logged in successfully!'')),
                    (''token'', JString token)])))"

text \<open>
  \<^verbatim>\<open>router.patch("/update")\<close>, the handler behind \<^verbatim>\<open>verifyJwt\<close>. \<open>email_in_use\<close> is
  the test of its early return. \<open>update_rest\<close> is the part of the handler after the email
  block: the password and birthday assignments, the save, the new token and the answer.
\<close>

definition email_in_use :: "db \<Rightarrow> objectId \<Rightarrow> string \<Rightarrow> bool" where
  "email_in_use d userId email =
     (case UserModel_findOne_email d email of
        None \<Rightarrow> False
      | Some existingUser \<Rightarrow> user_id existingUser \<noteq> userId)"

definition update_rest :: "services \<Rightarrow> db \<Rightarrow> patch_body \<Rightarrow> user \<Rightarrow> db \<times> response" where
  "update_rest sv d p user =
     (let user1 = (case truthy (patch_password p) of
                     None \<Rightarrow> user
                   | Some password \<Rightarrow> user\<lparr>user_password := bcrypt_hash sv password\<rparr>);
          user2 = (case truthy (patch_birthday p) of
                     None \<Rightarrow> user1
                   | Some birthday \<Rightarrow> user1\<lparr>user_birthday := Some birthday\<rparr>);
          d' = UserModel_save d user2;
          token = createJwt sv (Subject_user user2)
      in (d', status_json 200
                [(''message'', JString ''Profile updated successfully!''),
                 (''token'', JString token)]))"

definition updateProfile :: "services \<Rightarrow> db \<Rightarrow> objectId \<Rightarrow> patch_body \<Rightarrow> db \<times> response" where
  "updateProfile sv d userId p =
     (case UserModel_findById d userId of
        None \<Rightarrow> (d, status_json 404 [(''message'', JString ''User not found.'')])
      | Some user \<Rightarrow>
          (let user1 = (case truthy (patch_name p) of
                          None \<Rightarrow> user
                        | Some name \<Rightarrow> user\<lparr>user_name := name\<rparr>)
           in case truthy (patch_email p) of
                None \<Rightarrow> update_rest sv d p user1
              | Some email \<Rightarrow>
                  if email_in_use d userId email
                  then (d, status_json 400
                             [(''message'', JString ''This email is already in use.'')])
                  else update_rest sv d p (user1\<lparr>user_email := email\<rparr>)))"

text \<open>\<^verbatim>\<open>router.delete("/delete")\<close>, the handler behind \<^verbatim>\<open>verifyJwt\<close>.\<close>

definition deleteProfile :: "db \<Rightarrow> objectId \<Rightarrow> db \<times> response" where
  "deleteProfile d userId =
     (case UserModel_findById d userId of
        None \<Rightarrow> (d, status_json 404 [(''message'', JString ''User not found.'')])
      | Some user \<Rightarrow>
          (UserModel_findByIdAndDelete d userId,
           status_json 200
             [(''message'', JString (''User '' @ user_name user @ '' deleted successfully.''))]))"


section \<open>The authentication gate (utils/middleware)\<close>

text \<open>
  Modelled from the spec: \<^verbatim>\<open>utils/middleware.js\<close>, which exports \<^verbatim>\<open>verifyJwt\<close>, is missing.
  Section 4.2: with no token the request fails with 401 and "Authentication token is
  required"; with a token, verification either yields the identity, which is attached to
  the request before the handler runs, or fails with 401 and "Invalid token". The token is
  the one the \<^verbatim>\<open>Authorization: Bearer\<close> header supplies, if any.
\<close>

definition verifyJwt :: "services \<Rightarrow> string option \<Rightarrow> response + objectId" where
  "verifyJwt sv supplied =
     (case supplied of
        None \<Rightarrow> Inl (status_json 401 [(''message'', JString ''Authentication token is required'')])
      | Some token \<Rightarrow>
          (case jwt_verify sv token of
             None \<Rightarrow> Inl (status_json 401 [(''message'', JString ''Invalid token'')])
           | Some userId \<Rightarrow> Inr userId))"

text \<open>
  Modelled from the spec: the admin guard of \<^verbatim>\<open>utils/middleware.js\<close> is missing. Section
  4.2: it runs after the identity is attached, loads the user record from the store and
  fails with 403 and "Access denied! must be an admin." when the record's admin flag is
  false. The spec is silent on an identity that no longer resolves; the model lets no
  request through without a record whose flag is true.
\<close>

definition requireAdmin :: "db \<Rightarrow> objectId \<Rightarrow> response + unit" where
  "requireAdmin d userId =
     (case UserModel_findById d userId of
        None \<Rightarrow> Inl (status_json 403 [(''message'', JString ''Access denied! must be an admin.'')])
      | Some user \<Rightarrow>
          if user_admin user then Inr ()
          else Inl (status_json 403 [(''message'', JString ''Access denied! must be an admin.'')]))"

text \<open>
  A route registered as \<^verbatim>\<open>router.METHOD(path, verifyJwt, handler)\<close>, as the update and
  delete routes of the user router are: the handler runs on the attached identity only
  when the middleware lets the request through.
\<close>

definition authenticated ::
  "services \<Rightarrow> (objectId \<Rightarrow> db \<Rightarrow> db \<times> response) \<Rightarrow> string option \<Rightarrow> db \<Rightarrow> db \<times> response" where
  "authenticated sv handler supplied d =
     (case verifyJwt sv supplied of
        Inl rejection \<Rightarrow> (d, rejection)
      | Inr userId \<Rightarrow> handler userId d)"

text \<open>An admin-gated route: the admin guard stands between \<^verbatim>\<open>verifyJwt\<close> and the handler.\<close>

definition admin_only ::
  "services \<Rightarrow> (objectId \<Rightarrow> db \<Rightarrow> db \<times> response) \<Rightarrow> string option \<Rightarrow> db \<Rightarrow> db \<times> response" where
  "admin_only sv handler supplied d =
     authenticated sv
       (\<lambda>userId d'. case requireAdmin d' userId of
                       Inl rejection \<Rightarrow> (d', rejection)
                     | Inr _ \<Rightarrow> handler userId d')
       supplied d"

definition patch_users_update :: "services \<Rightarrow> string option \<Rightarrow> patch_body \<Rightarrow> db \<Rightarrow> db \<times> response" where
  "patch_users_update sv supplied p d =
     authenticated sv (\<lambda>userId d'. updateProfile sv d' userId p) supplied d"

definition delete_users_delete :: "services \<Rightarrow> string option \<Rightarrow> db \<Rightarrow> db \<times> response" where
  "delete_users_delete sv supplied d =
     authenticated sv (\<lambda>userId d'. deleteProfile d' userId) supplied d"

text \<open>
  Modelled from the spec: the route \<^verbatim>\<open>DELETE /menu/delete/category/:id\<close> is not in the
  \<^verbatim>\<open>MenuRouter.js\<close> of the sources, only its tests are. Section 4.3: it fails with 404 when
  no category has the identifier ("Category not found." in the tests), fails with 400 and
  "Cannot delete this category as there are still items associated with it." when an item
  references the category, and otherwise deletes the category and reports its name.
\<close>

definition deleteCategory :: "db \<Rightarrow> objectId \<Rightarrow> db \<times> response" where
  "deleteCategory d categoryId =
     (case CategoryModel_findById d categoryId of
        None \<Rightarrow> (d, status_json 404 [(''message'', JString ''Category not found.'')])
      | Some category \<Rightarrow>
          if ItemModel_find_category d categoryId \<noteq> []
          then (d, status_json 400
                     [(''message'',
                       JString ''Cannot delete this category as there are still items associated with it.'')])
          else (d\<lparr>categories := deleteOne (\<lambda>c. category_id c = categoryId) (categories d)\<rparr>,
                status_json 200
                  [(''message'',
                    JString (''Category '' @ category_name category @ '' deleted successfully.''))]))"

definition delete_menu_category :: "services \<Rightarrow> string option \<Rightarrow> objectId \<Rightarrow> db \<Rightarrow> db \<times> response" where
  "delete_menu_category sv supplied categoryId d =
     admin_only sv (\<lambda>userId d'. deleteCategory d' categoryId) supplied d"


section \<open>The item schema (models/ItemModel.js)\<close>

text \<open>
  \<^verbatim>\<open>required: true\<close> on a \<^verbatim>\<open>String\<close> path refuses an absent value and the empty string;
  on any other path it refuses an absent value. \<open>itemSchema_validate\<close> lists the paths that
  fail; the schema declares no other validator (no \<^verbatim>\<open>min\<close>, no \<^verbatim>\<open>default\<close>).
\<close>

definition required_string :: "string option \<Rightarrow> bool" where
  "required_string v = (case v of None \<Rightarrow> False | Some s \<Rightarrow> s \<noteq> [])"

definition required_value :: "'a option \<Rightarrow> bool" where
  "required_value v = (case v of None \<Rightarrow> False | Some _ \<Rightarrow> True)"

definition itemSchema_validate :: "item \<Rightarrow> string list" where
  "itemSchema_validate i =
     (if required_string (item_name i) then [] else [''name'']) @
     (if required_value (item_category i) then [] else [''category'']) @
     (if required_value (item_price i) then [] else [''price'']) @
     (if required_value (item_quantity i) then [] else [''quantity''])"

datatype save_error = ValidationError "string list" | DuplicateKey string

text \<open>
  Saving a new item: validation first, then the insert, which the unique index on
  \<^verbatim>\<open>name\<close> refuses when a stored item has the same name.
\<close>

definition ItemModel_save :: "db \<Rightarrow> item \<Rightarrow> save_error + db" where
  "ItemModel_save d i =
     (if itemSchema_validate i \<noteq> [] then Inl (ValidationError (itemSchema_validate i))
      else if item_name i \<in> set (map item_name (items d)) then Inl (DuplicateKey ''name'')
      else Inr (d\<lparr>items := items d @ [i]\<rparr>))"


section \<open>The application (server.js)\<close>




text \<open>
  A request path is the list of its segments, \<open>[]\<close> for \<^verbatim>\<open>/\<close>. The routers match the
  fixed segments of a route without regard to letter case (the framework's default);
  the fixed segments of the sources are all in lower case.
\<close>

definition lower :: "char \<Rightarrow> char" where
  "lower c =
     (case map_of (zip ''ABCDEFGHIJKLMNOPQRSTUVWXYZ'' ''abcdefghijklmnopqrstuvwxyz'') c of
        None \<Rightarrow> c
      | Some l \<Rightarrow> l)"













text \<open>
  The last middleware: \<^verbatim>\<open>response.status(error.status || 500).json(...)\<close>.
  \<^verbatim>\<open>error.status || 500\<close> takes 500 for an absent status and for the falsy status 0. A
  status outside 100 to 999 makes the call throw inside the responder, and the framework
  answers 500 with its own error page. A status below 200 and the statuses 204, 205 and
  304 are sent without a body.
\<close>

definition valid_status :: "nat \<Rightarrow> bool" where
  "valid_status s = (100 \<le> s \<and> s \<le> 999)"

definition bodiless_status :: "nat \<Rightarrow> bool" where
  "bodiless_status s = (s < 200 \<or> s = 204 \<or> s = 205 \<or> s = 304)"

definition error_responder :: "js_error \<Rightarrow> response" where
  "error_responder error =
     (let code = (case error_status error of
                    None \<Rightarrow> 500
                  | Some s \<Rightarrow> if s = 0 then 500 else s)
      in if \<not> valid_status code then \<lparr>status = 500, body = Error_page\<rparr>
         else if bodiless_status code then \<lparr>status = code, body = No_content\<rparr>
         else status_json code
                [(''message'', JString ''Error Occured!''),
                 (''error'', JString (error_message error))])"

text \<open>What the client of a GET route gets: the handler's answer, or the responder's.\<close>

definition answer :: "outcome \<Rightarrow> response" where
  "answer out = (case out of Respond r \<Rightarrow> r | Next error \<Rightarrow> error_responder error)"



section \<open>What a client reads, and the fixture of the tests\<close>

text \<open>The field of a JSON answer, and the passwords a JSON value carries.\<close>

definition field :: "string \<Rightarrow> response \<Rightarrow> json option" where
  "field k r = (case body r of Json obj \<Rightarrow> map_of obj k | _ \<Rightarrow> None)"

fun passwords_in :: "json \<Rightarrow> string list" where
  "passwords_in (JUser u) = [user_password u]"
| "passwords_in (JArray js) = concat (map passwords_in js)"
| "passwords_in (JObject obj) = concat (map (\<lambda>(k, v). passwords_in v) obj)"
| "passwords_in (JString s) = []"
| "passwords_in (JItem i) = []"
| "passwords_in (JCategory c) = []"

text \<open>
  A stand-in for the driver's cast: a string of 24 hexadecimal digits stands for the
  identifier of the same digits in lower case.
\<close>

definition test_mongoose :: mongoose where
  "test_mongoose =
     \<lparr>castObjectId =
        (\<lambda>s. if length s = 24 \<and> list_all (\<lambda>c. c \<in> set ''0123456789abcdefABCDEF'') s
             then Some (map lower s) else None),
      castErrorMessage =
        (\<lambda>path v. ''Cast to ObjectId failed for value '' @ v @ '' at path '' @ path)\<rparr>"

text \<open>
  The store that \<^verbatim>\<open>beforeEach\<close> of \<^verbatim>\<open>tests/MenuRouter.test.js\<close> builds: an admin, a
  plain user, two categories and one item in the first of them, and stand-ins for the
  hashing and token primitives.
\<close>

definition test_services :: services where
  "test_services =
     \<lparr>bcrypt_hash = (\<lambda>p. ''$2a$10$'' @ p),
      bcrypt_compare = (\<lambda>p h. h = ''$2a$10$'' @ p),
      createJwt = (\<lambda>s. case s of Subject_id i \<Rightarrow> ''jwt.'' @ i
                              | Subject_user u \<Rightarrow> ''jwt.'' @ user_id u),
      decodedJwt = (\<lambda>t. JObject [(''id'', JString (drop 4 t))]),
      jwt_verify = (\<lambda>t. if take 4 t = ''jwt.'' then Some (drop 4 t) else None)\<rparr>"

definition adminUser :: user where
  "adminUser =
     \<lparr>user_id = ''a1'', user_email = ''admin@test.com'', user_password = ''$2a$10$password'',
      user_name = ''Admin User'', user_birthday = None, user_admin = True\<rparr>"

definition testUser :: user where
  "testUser =
     \<lparr>user_id = ''u1'', user_email = ''user@test.com'', user_password = ''$2a$10$password'',
      user_name = ''Test User'', user_birthday = None, user_admin = False\<rparr>"

definition testCategory :: category where
  "testCategory = \<lparr>category_id = ''64b0c0ffee00000000000c01'', category_name = ''Test Category''\<rparr>"

definition testCategory2 :: category where
  "testCategory2 = \<lparr>category_id = ''64b0c0ffee00000000000c02'', category_name = ''Test Category 2''\<rparr>"

definition testItem :: item where
  "testItem =
     \<lparr>item_id = ''64b0c0ffee00000000000e01'', item_name = Some ''Test Item'', item_category = Some ''64b0c0ffee00000000000c01'',
      item_price = Some (599 / 100), item_quantity = None, item_description = None,
      item_image = None\<rparr>"

definition test_db :: db where
  "test_db =
     \<lparr>users = [adminUser, testUser], items = [testItem],
      categories = [testCategory, testCategory2]\<rparr>"

definition test_patch :: patch_body where
  "test_patch =
     \<lparr>patch_name = Some ''New Name'', patch_email = None, patch_password = None,
      patch_birthday = None\<rparr>"

definition newcomer :: signup_body where
  "newcomer =
     \<lparr>signup_email = ''new@test.com'', signup_password = ''secret'',
      signup_name = ''Newcomer'', signup_birthday = None\<rparr>"

definition returning :: signup_body where
  "returning =
     \<lparr>signup_email = ''user@test.com'', signup_password = ''secret'',
      signup_name = ''Again'', signup_birthday = None\<rparr>"

definition falsy_patch :: patch_body where
  "falsy_patch =
     \<lparr>patch_name = Some [], patch_email = None, patch_password = Some ''newpass'',
      patch_birthday = Some []\<rparr>"

definition taken_email_patch :: patch_body where
  "taken_email_patch =
     \<lparr>patch_name = None, patch_email = Some ''admin@test.com'', patch_password = None,
      patch_birthday = None\<rparr>"

definition own_email_patch :: patch_body where
  "own_email_patch =
     \<lparr>patch_name = None, patch_email = Some ''user@test.com'',
      patch_password = Some ''newpass'', patch_birthday = None\<rparr>"






definition free_lunch :: item where
  "free_lunch =
     \<lparr>item_id = ''64b0c0ffee00000000000e02'', item_name = Some ''Free Lunch'', item_category = Some ''64b0c0ffee00000000000c01'',
      item_price = Some (- 1), item_quantity = Some 1, item_description = None,
      item_image = None\<rparr>"




section \<open>The menu routes\<close>

lemma test_mongoose_simps:
  "castObjectId test_mongoose ''64b0c0ffee00000000000c01'' = Some ''64b0c0ffee00000000000c01''"
  "castObjectId test_mongoose ''64b0c0ffee00000000000c02'' = Some ''64b0c0ffee00000000000c02''"
  "castObjectId test_mongoose ''64b0c0ffee00000000000c09'' = Some ''64b0c0ffee00000000000c09''"
  "castObjectId test_mongoose ''64B0C0FFEE00000000000C01'' = Some ''64b0c0ffee00000000000c01''"
  "castObjectId test_mongoose ''64b0c0ffee00000000000e01'' = Some ''64b0c0ffee00000000000e01''"
  "castObjectId test_mongoose ''64b0c0ffee00000000000e09'' = Some ''64b0c0ffee00000000000e09''"
  "castObjectId test_mongoose ''not-an-id'' = None"
  "castErrorMessage test_mongoose path v
     = ''Cast to ObjectId failed for value '' @ v @ '' at path '' @ path"
  by (simp_all add: test_mongoose_def lower_def)

lemma error_responder_no_status:
  "error_status e = None \<Longrightarrow>
   error_responder e =
     status_json 500 [(''message'', JString ''Error Occured!''),
                      (''error'', JString (error_message e))]"
  by (simp add: error_responder_def valid_status_def bodiless_status_def)

text \<open>
  C3 (amended). For every categoryId that the driver casts to an identifier, the route
  that lists the items of a category answers 404 with "There are currently no items in
  this category." exactly when no stored item references the identifier, and otherwise
  200 with exactly the items that reference it, of which there is at least one. The
  answer does not depend on the categories collection: an identifier of no category at
  all is answered like a category without items. A categoryId that does not cast to an
  identifier is forwarded as the driver's cast error and answered 500 by the error
  responder.
\<close>

theorem listItemsByCategory_response:
  "(castObjectId mg categoryId = None \<longrightarrow>
      listItemsByCategory mg d categoryId = Next (CastError mg ''category'' categoryId)
      \<and> answer (listItemsByCategory mg d categoryId) =
          status_json 500
            [(''message'', JString ''Error Occured!''),
             (''error'', JString (castErrorMessage mg ''category'' categoryId))])
   \<and> (\<forall>oid. castObjectId mg categoryId = Some oid \<longrightarrow>
        listItemsByCategory mg d categoryId =
          Respond
            (if filter (\<lambda>i. item_category i = Some oid) (items d) = []
             then status_json 404
                    [(''message'', JString ''There are currently no items in this category.'')]
             else plain_json
                    [(''result'',
                      JArray (map JItem (filter (\<lambda>i. item_category i = Some oid) (items d))))])
        \<and> (status (answer (listItemsByCategory mg d categoryId)) = 404
             \<longleftrightarrow> (\<forall>i \<in> set (items d). item_category i \<noteq> Some oid))
        \<and> (status (answer (listItemsByCategory mg d categoryId)) = 200
             \<longleftrightarrow> 1 \<le> length (filter (\<lambda>i. item_category i = Some oid) (items d))))
   \<and> listItemsByCategory mg (d\<lparr>categories := cs\<rparr>) categoryId
       = listItemsByCategory mg d categoryId"
proof -
  have malformed: "listItemsByCategory mg d categoryId = Next (CastError mg ''category'' categoryId)"
    if "castObjectId mg categoryId = None"
    using that by (simp add: listItemsByCategory_def cast_param_def)
  have forwarded: "answer (Next (CastError mg ''category'' categoryId)) =
          status_json 500
            [(''message'', JString ''Error Occured!''),
             (''error'', JString (castErrorMessage mg ''category'' categoryId))]"
    using error_responder_no_status [of "CastError mg ''category'' categoryId"]
    by (simp add: answer_def CastError_def)
  have cast: "listItemsByCategory mg d categoryId =
          Respond
            (if filter (\<lambda>i. item_category i = Some oid) (items d) = []
             then status_json 404
                    [(''message'', JString ''There are currently no items in this category.'')]
             else plain_json
                    [(''result'',
                      JArray (map JItem (filter (\<lambda>i. item_category i = Some oid) (items d))))])"
    if "castObjectId mg categoryId = Some oid" for oid
    using that
    by (simp add: listItemsByCategory_def cast_param_def ItemModel_find_category_def Let_def)
  have s404: "status (answer (listItemsByCategory mg d categoryId)) = 404
             \<longleftrightarrow> (\<forall>i \<in> set (items d). item_category i \<noteq> Some oid)"
    if "castObjectId mg categoryId = Some oid" for oid
    unfolding cast [OF that]
    by (auto simp: answer_def status_json_def plain_json_def filter_empty_conv)
  have s200: "status (answer (listItemsByCategory mg d categoryId)) = 200
             \<longleftrightarrow> 1 \<le> length (filter (\<lambda>i. item_category i = Some oid) (items d))"
    if "castObjectId mg categoryId = Some oid" for oid
    unfolding cast [OF that]
    by (auto simp: answer_def status_json_def plain_json_def Suc_le_eq)
  have frame: "listItemsByCategory mg (d\<lparr>categories := cs\<rparr>) categoryId
       = listItemsByCategory mg d categoryId"
    by (simp add: listItemsByCategory_def ItemModel_find_category_def split: sum.splits)
  show ?thesis
    using malformed forwarded cast s404 s200 frame by auto
qed

theorem listItemsByCategory_witness:
  "castObjectId test_mongoose ''64b0c0ffee00000000000c01'' = Some ''64b0c0ffee00000000000c01''
   \<and> listItemsByCategory test_mongoose test_db ''64b0c0ffee00000000000c01'' =
       Respond (plain_json [(''result'', JArray [JItem testItem])])
   \<and> listItemsByCategory test_mongoose test_db ''64B0C0FFEE00000000000C01'' =
       Respond (plain_json [(''result'', JArray [JItem testItem])])
   \<and> listItemsByCategory test_mongoose test_db ''64b0c0ffee00000000000c02'' =
       Respond (status_json 404
         [(''message'', JString ''There are currently no items in this category.'')])
   \<and> CategoryModel_findById test_db ''64b0c0ffee00000000000c09'' = None
   \<and> listItemsByCategory test_mongoose test_db ''64b0c0ffee00000000000c09'' =
       Respond (status_json 404
         [(''message'', JString ''There are currently no items in this category.'')])
   \<and> castObjectId test_mongoose ''not-an-id'' = None
   \<and> answer (listItemsByCategory test_mongoose test_db ''not-an-id'') =
       status_json 500
         [(''message'', JString ''Error Occured!''),
          (''error'',
           JString ''Cast to ObjectId failed for value not-an-id at path category'')]"
proof -
  have its: "items test_db = [testItem]"
    "item_category testItem = Some ''64b0c0ffee00000000000c01''"
    by (simp_all add: test_db_def testItem_def)
  have c1: "listItemsByCategory test_mongoose test_db ''64b0c0ffee00000000000c01'' =
       Respond (plain_json [(''result'', JArray [JItem testItem])])"
    using listItemsByCategory_response [of test_mongoose "''64b0c0ffee00000000000c01''" test_db "[]"] by (simp add: test_mongoose_simps its)
  have c1u: "listItemsByCategory test_mongoose test_db ''64B0C0FFEE00000000000C01'' =
       Respond (plain_json [(''result'', JArray [JItem testItem])])"
    using listItemsByCategory_response [of test_mongoose "''64B0C0FFEE00000000000C01''" test_db "[]"] by (simp add: test_mongoose_simps its)
  have c2: "listItemsByCategory test_mongoose test_db ''64b0c0ffee00000000000c02'' =
       Respond (status_json 404
         [(''message'', JString ''There are currently no items in this category.'')])"
    using listItemsByCategory_response [of test_mongoose "''64b0c0ffee00000000000c02''" test_db "[]"] by (simp add: test_mongoose_simps its)
  have c9: "listItemsByCategory test_mongoose test_db ''64b0c0ffee00000000000c09'' =
       Respond (status_json 404
         [(''message'', JString ''There are currently no items in this category.'')])"
    using listItemsByCategory_response [of test_mongoose "''64b0c0ffee00000000000c09''" test_db "[]"] by (simp add: test_mongoose_simps its)
  have none: "CategoryModel_findById test_db ''64b0c0ffee00000000000c09'' = None"
    by (simp add: CategoryModel_findById_def test_db_def testCategory_def testCategory2_def)
  have bad: "answer (listItemsByCategory test_mongoose test_db ''not-an-id'') =
       status_json 500
         [(''message'', JString ''Error Occured!''),
          (''error'',
           JString ''Cast to ObjectId failed for value not-an-id at path category'')]"
    using listItemsByCategory_response [of test_mongoose "''not-an-id''" test_db "[]",
        THEN conjunct1, THEN mp, OF test_mongoose_simps(7), THEN conjunct2]
    by (simp add: test_mongoose_simps)
  from c1 c1u c2 c9 none bad show ?thesis by (simp add: test_mongoose_simps)
qed

text \<open>
  C3 as stated fails for the categoryId \<^verbatim>\<open>not-an-id\<close>: no item references it, and the
  answer is the 500 of the error responder, not 404.
\<close>

theorem listItemsByCategory_malformed:
  "filter (\<lambda>i. item_category i = Some ''not-an-id'') (items test_db) = []
   \<and> castObjectId test_mongoose ''not-an-id'' = None
   \<and> status (answer (listItemsByCategory test_mongoose test_db ''not-an-id'')) = 500
   \<and> answer (listItemsByCategory test_mongoose test_db ''not-an-id'') \<noteq>
       status_json 404
         [(''message'', JString ''There are currently no items in this category.'')]"
  by (simp add: listItemsByCategory_def cast_param_def test_mongoose_simps answer_def
      CastError_def error_responder_def valid_status_def bodiless_status_def status_json_def
      test_db_def testItem_def)

text \<open>
  C6. The route that gets one item answers a well-formed identifier of no stored item
  with 404 and the message "Item not found", without the full stop that the claim and the
  test of the repository ("Item not found.") have; an identifier of a stored item is
  answered with 200 and the item in the result field. Evaluated on the store of the
  tests.
\<close>

theorem getItemById_message_evaluated:
  "castObjectId test_mongoose ''64b0c0ffee00000000000e09'' = Some ''64b0c0ffee00000000000e09''
   \<and> ItemModel_findById test_db ''64b0c0ffee00000000000e09'' = None
   \<and> getItemById test_mongoose test_db ''64b0c0ffee00000000000e09'' =
       Respond (status_json 404 [(''message'', JString ''Item not found'')])
   \<and> answer (getItemById test_mongoose test_db ''64b0c0ffee00000000000e09'') \<noteq>
       status_json 404 [(''message'', JString ''Item not found.'')]
   \<and> getItemById test_mongoose test_db ''64b0c0ffee00000000000e01'' =
       Respond (status_json 200 [(''result'', JItem testItem)])"
  by (simp add: getItemById_def cast_param_def test_mongoose_simps ItemModel_findById_def
      test_db_def testItem_def answer_def status_json_def plain_json_def)

section \<open>The user routes\<close>

lemma passwords_in_users: "concat (map (passwords_in \<circ> JUser) us) = map user_password us"
  by (induction us) simp_all

text \<open>
  C9. The route that lists the users answers every request with 200, the message "User
  router operation" and, in the result field, the stored user documents in full: the
  passwords a client reads there are the stored passwords of all users.
\<close>

theorem getUsers_response:
  "getUsers d =
     status_json 200 [(''message'', JString ''User router operation''),
                      (''result'', JArray (map JUser (users d)))]
   \<and> field ''result'' (getUsers d) = Some (JArray (map JUser (users d)))
   \<and> passwords_in (JArray (map JUser (users d))) = map user_password (users d)"
  by (simp add: getUsers_def UserModel_find_all_def plain_json_def status_json_def field_def
        passwords_in_users)

theorem getUsers_witness:
  "getUsers test_db =
     status_json 200 [(''message'', JString ''User router operation''),
                      (''result'', JArray [JUser adminUser, JUser testUser])]
   \<and> passwords_in (JArray [JUser adminUser, JUser testUser])
       = [''$2a$10$password'', ''$2a$10$password'']"
  using getUsers_response [of test_db]
  by (simp add: test_db_def adminUser_def testUser_def)

section \<open>The authentication gate and the routes behind it\<close>

text \<open>
  C1. On every route behind the authentication middleware, whatever its handler, a
  request without a token is answered 401 with "Authentication token is required" and a
  request whose token fails verification is answered 401 with "Invalid token"; the same
  holds on every admin-gated route, where moreover a request whose verified identity is a
  stored user with a false admin flag is answered 403 with "Access denied! must be an
  admin.". In each case the handler does not run and the store is unchanged.
\<close>

theorem auth_gate_rejections:
  "authenticated sv handler None d =
     (d, status_json 401 [(''message'', JString ''Authentication token is required'')])
   \<and> (jwt_verify sv token = None \<longrightarrow>
        authenticated sv handler (Some token) d =
          (d, status_json 401 [(''message'', JString ''Invalid token'')]))
   \<and> admin_only sv handler None d =
       (d, status_json 401 [(''message'', JString ''Authentication token is required'')])
   \<and> (jwt_verify sv token = None \<longrightarrow>
        admin_only sv handler (Some token) d =
          (d, status_json 401 [(''message'', JString ''Invalid token'')]))
   \<and> (jwt_verify sv token = Some userId \<and> UserModel_findById d userId = Some u
        \<and> \<not> user_admin u \<longrightarrow>
        admin_only sv handler (Some token) d =
          (d, status_json 403 [(''message'', JString ''Access denied! must be an admin.'')]))"
  by (simp add: authenticated_def admin_only_def verifyJwt_def requireAdmin_def)

theorem auth_gate_witness:
  "patch_users_update test_services None test_patch test_db =
     (test_db, status_json 401 [(''message'', JString ''Authentication token is required'')])
   \<and> delete_users_delete test_services (Some ''badToken'') test_db =
       (test_db, status_json 401 [(''message'', JString ''Invalid token'')])
   \<and> delete_menu_category test_services None ''64b0c0ffee00000000000c02'' test_db =
       (test_db, status_json 401 [(''message'', JString ''Authentication token is required'')])
   \<and> delete_menu_category test_services (Some ''badToken'') ''64b0c0ffee00000000000c02'' test_db =
       (test_db, status_json 401 [(''message'', JString ''Invalid token'')])
   \<and> delete_menu_category test_services (Some ''jwt.u1'') ''64b0c0ffee00000000000c02'' test_db =
       (test_db, status_json 403 [(''message'', JString ''Access denied! must be an admin.'')])"
  using auth_gate_rejections [of test_services
      "\<lambda>userId d'. updateProfile test_services d' userId test_patch"
      test_db "''badToken''" "''u1''" testUser]
    auth_gate_rejections [of test_services "\<lambda>userId d'. deleteProfile d' userId"
      test_db "''badToken''" "''u1''" testUser]
    auth_gate_rejections [of test_services "\<lambda>userId d'. deleteCategory d' ''64b0c0ffee00000000000c02''"
      test_db "''badToken''" "''u1''" testUser]
    auth_gate_rejections [of test_services "\<lambda>userId d'. deleteCategory d' ''64b0c0ffee00000000000c02''"
      test_db "''jwt.u1''" "''u1''" testUser]
  by (simp add: patch_users_update_def delete_users_delete_def delete_menu_category_def
      test_services_def test_db_def UserModel_findById_def adminUser_def testUser_def
      authenticated_def admin_only_def verifyJwt_def requireAdmin_def)

lemma deleteOne_others: "filter (\<lambda>x. \<not> P x) (deleteOne P xs) = filter (\<lambda>x. \<not> P x) xs"
  by (induction xs) simp_all

lemma deleteOne_length: "find P xs = Some x \<Longrightarrow> Suc (length (deleteOne P xs)) = length xs"
  by (induction xs) (auto split: if_splits)

lemma deleteOne_gone:
  "distinct (map f xs) \<Longrightarrow> find (\<lambda>x. f x = k) (deleteOne (\<lambda>x. f x = k) xs) = None"
proof (induction xs)
  case Nil
  then show ?case by simp
next
  case (Cons x xs)
  show ?case
  proof (cases "f x = k")
    case True
    with Cons.prems have "k \<notin> f ` set xs" by auto
    then have "find (\<lambda>x. f x = k) xs = None" by (auto simp: find_None_iff)
    with True show ?thesis by simp
  next
    case False
    with Cons show ?thesis by simp
  qed
qed

text \<open>
  C2. A request to delete a category that carries the token of a stored admin is
  answered 404 when no category has the identifier; 400 with "Cannot delete this category
  as there are still items associated with it." when the category exists and some item
  references it, the store staying as it was; and, when the category exists and no item
  references it, 200 with "Category <name> deleted successfully." for the name of the
  category, which is taken out of the collection: one document fewer, the documents of
  other identifiers untouched and, identifiers being unique, none left under this one.
\<close>

theorem deleteCategory_admin:
  assumes "jwt_verify sv token = Some userId"
    and "UserModel_findById d userId = Some u"
    and "user_admin u"
  shows
   "(CategoryModel_findById d categoryId = None \<longrightarrow>
       delete_menu_category sv (Some token) categoryId d =
         (d, status_json 404 [(''message'', JString ''Category not found.'')]))
    \<and> (CategoryModel_findById d categoryId \<noteq> None
        \<and> (\<exists>i \<in> set (items d). item_category i = Some categoryId) \<longrightarrow>
         delete_menu_category sv (Some token) categoryId d =
           (d, status_json 400
                 [(''message'',
                   JString ''Cannot delete this category as there are still items associated with it.'')]))
    \<and> (\<forall>c. CategoryModel_findById d categoryId = Some c
        \<and> (\<forall>i \<in> set (items d). item_category i \<noteq> Some categoryId) \<longrightarrow>
         delete_menu_category sv (Some token) categoryId d =
           (d\<lparr>categories := deleteOne (\<lambda>c. category_id c = categoryId) (categories d)\<rparr>,
            status_json 200
              [(''message'', JString (''Category '' @ category_name c @ '' deleted successfully.''))])
         \<and> Suc (length (deleteOne (\<lambda>c. category_id c = categoryId) (categories d)))
             = length (categories d)
         \<and> filter (\<lambda>c. category_id c \<noteq> categoryId)
               (deleteOne (\<lambda>c. category_id c = categoryId) (categories d))
             = filter (\<lambda>c. category_id c \<noteq> categoryId) (categories d)
         \<and> (distinct (map category_id (categories d)) \<longrightarrow>
              CategoryModel_findById
                (d\<lparr>categories := deleteOne (\<lambda>c. category_id c = categoryId) (categories d)\<rparr>)
                categoryId = None))"
proof -
  have gate: "delete_menu_category sv (Some token) categoryId d = deleteCategory d categoryId"
    using assms
    by (simp add: delete_menu_category_def admin_only_def authenticated_def verifyJwt_def
        requireAdmin_def)
  have absent: "CategoryModel_findById d categoryId = None \<Longrightarrow>
      deleteCategory d categoryId =
        (d, status_json 404 [(''message'', JString ''Category not found.'')])"
    by (simp add: deleteCategory_def)
  have in_use: "CategoryModel_findById d categoryId \<noteq> None \<Longrightarrow>
      \<exists>i \<in> set (items d). item_category i = Some categoryId \<Longrightarrow>
      deleteCategory d categoryId =
        (d, status_json 400
              [(''message'',
                JString ''Cannot delete this category as there are still items associated with it.'')])"
    by (auto simp: deleteCategory_def ItemModel_find_category_def filter_empty_conv)
  have free: "CategoryModel_findById d categoryId = Some c \<Longrightarrow>
      \<forall>i \<in> set (items d). item_category i \<noteq> Some categoryId \<Longrightarrow>
      deleteCategory d categoryId =
        (d\<lparr>categories := deleteOne (\<lambda>c. category_id c = categoryId) (categories d)\<rparr>,
         status_json 200
           [(''message'', JString (''Category '' @ category_name c @ '' deleted successfully.''))])"
    for c
    by (auto simp: deleteCategory_def ItemModel_find_category_def filter_empty_conv)
  have others: "filter (\<lambda>c. category_id c \<noteq> categoryId)
               (deleteOne (\<lambda>c. category_id c = categoryId) (categories d))
             = filter (\<lambda>c. category_id c \<noteq> categoryId) (categories d)"
    using deleteOne_others [of "\<lambda>c. category_id c = categoryId" "categories d"] by simp
  have gone: "distinct (map category_id (categories d)) \<Longrightarrow>
      CategoryModel_findById
        (d\<lparr>categories := deleteOne (\<lambda>c. category_id c = categoryId) (categories d)\<rparr>)
        categoryId = None"
    by (simp add: CategoryModel_findById_def deleteOne_gone)
  have len: "CategoryModel_findById d categoryId = Some c \<Longrightarrow>
      Suc (length (deleteOne (\<lambda>c. category_id c = categoryId) (categories d)))
        = length (categories d)" for c
    by (simp add: CategoryModel_findById_def deleteOne_length)
  show ?thesis
    using absent in_use free others gone len by (simp add: gate)
qed

theorem deleteCategory_witness:
  "delete_menu_category test_services (Some ''jwt.a1'') ''64b0c0ffee00000000000c09'' test_db =
     (test_db, status_json 404 [(''message'', JString ''Category not found.'')])
   \<and> delete_menu_category test_services (Some ''jwt.a1'') ''64b0c0ffee00000000000c01'' test_db =
       (test_db, status_json 400
          [(''message'',
            JString ''Cannot delete this category as there are still items associated with it.'')])
   \<and> delete_menu_category test_services (Some ''jwt.a1'') ''64b0c0ffee00000000000c02'' test_db =
       (test_db\<lparr>categories := [testCategory]\<rparr>,
        status_json 200 [(''message'', JString ''Category Test Category 2 deleted successfully.'')])"
  using deleteCategory_admin [of test_services "''jwt.a1''" "''a1''" test_db adminUser "''64b0c0ffee00000000000c09''"]
    deleteCategory_admin [of test_services "''jwt.a1''" "''a1''" test_db adminUser "''64b0c0ffee00000000000c01''"]
    deleteCategory_admin [of test_services "''jwt.a1''" "''a1''" test_db adminUser "''64b0c0ffee00000000000c02''"]
  by (simp add: test_services_def test_db_def UserModel_findById_def adminUser_def testUser_def
      CategoryModel_findById_def testCategory_def testCategory2_def testItem_def
      delete_menu_category_def admin_only_def authenticated_def verifyJwt_def requireAdmin_def
      deleteCategory_def ItemModel_find_category_def)

section \<open>Sign-up and profile update\<close>

lemma test_services_simps:
  "bcrypt_hash test_services p = ''$2a$10$'' @ p"
  "bcrypt_compare test_services p h = (h = ''$2a$10$'' @ p)"
  "createJwt test_services (Subject_id i) = ''jwt.'' @ i"
  "createJwt test_services (Subject_user u) = ''jwt.'' @ user_id u"
  "decodedJwt test_services t = JObject [(''id'', JString (drop 4 t))]"
  "jwt_verify test_services t = (if take 4 t = ''jwt.'' then Some (drop 4 t) else None)"
  by (simp_all add: test_services_def)

lemma replaceOne_others:
  "P y \<Longrightarrow> filter (\<lambda>x. \<not> P x) (replaceOne P y xs) = filter (\<lambda>x. \<not> P x) xs"
  by (induction xs) simp_all

lemma find_replaceOne:
  "find P xs = Some x \<Longrightarrow> P y \<Longrightarrow> find P (replaceOne P y xs) = Some y"
  by (induction xs) (auto split: if_splits)

lemma find_Some_holds: "find P xs = Some x \<Longrightarrow> P x \<and> x \<in> set xs"
  by (induction xs) (auto split: if_splits)

lemma findById_id: "UserModel_findById d userId = Some u \<Longrightarrow> user_id u = userId \<and> u \<in> set (users d)"
  unfolding UserModel_findById_def by (drule find_Some_holds) simp

lemma email_in_use_iff:
  assumes "distinct (map user_email (users d))"
  shows "email_in_use d userId email
         \<longleftrightarrow> (\<exists>v \<in> set (users d). user_email v = email \<and> user_id v \<noteq> userId)"
proof (cases "UserModel_findOne_email d email")
  case None
  then have "\<forall>v \<in> set (users d). user_email v \<noteq> email"
    by (auto simp: UserModel_findOne_email_def find_None_iff)
  with None show ?thesis by (auto simp: email_in_use_def)
next
  case (Some ex)
  then have ex: "user_email ex = email" "ex \<in> set (users d)"
    using find_Some_holds [of "\<lambda>u. user_email u = email" "users d" ex]
    by (simp_all add: UserModel_findOne_email_def)
  have inj: "inj_on user_email (set (users d))"
    using assms by (simp add: distinct_map)
  have only: "v = ex" if "v \<in> set (users d)" "user_email v = email" for v
    using inj_onD [OF inj, of v ex] that ex by simp
  have "(\<exists>v \<in> set (users d). user_email v = email \<and> user_id v \<noteq> userId)
        \<longleftrightarrow> user_id ex \<noteq> userId"
  proof
    assume "\<exists>v \<in> set (users d). user_email v = email \<and> user_id v \<noteq> userId"
    then obtain v where v: "v \<in> set (users d)" "user_email v = email" "user_id v \<noteq> userId"
      by blast
    from only [OF v(1) v(2)] v(3) show "user_id ex \<noteq> userId" by simp
  next
    assume "user_id ex \<noteq> userId"
    with ex show "\<exists>v \<in> set (users d). user_email v = email \<and> user_id v \<noteq> userId"
      by blast
  qed
  then show ?thesis by (simp add: email_in_use_def Some)
qed

text \<open>
  C4. A sign-up whose email is the email of a stored user is answered 400 with "A profile
  with this email already exists." and leaves the store as it was. Any other sign-up
  appends one user to the store, whose password is the hash of the submitted password
  (equal to the submitted text only where the hash function returns its argument), and
  is answered 201 with the greeting, the new user as stored, the token issued for the new
  user's identifier and that token decoded.
\<close>

theorem signup_response:
  "((\<exists>existing \<in> set (users d). user_email existing = signup_email b) \<longrightarrow>
      signup sv d newId b =
        (d, status_json 400
              [(''message'', JString ''A profile with this email already exists.'')]))
   \<and> ((\<forall>existing \<in> set (users d). user_email existing \<noteq> signup_email b) \<longrightarrow>
        (let stored = \<lparr>user_id = newId, user_email = signup_email b,
                        user_password = bcrypt_hash sv (signup_password b),
                        user_name = signup_name b, user_birthday = signup_birthday b,
                        user_admin = False\<rparr>;
             token = createJwt sv (Subject_id newId)
         in signup sv d newId b =
              (d\<lparr>users := users d @ [stored]\<rparr>,
               status_json 201
                 [(''message'', JString (''Thank you for signing up to Three Beans ''
                                          @ signup_name b @ ''!'')),
                  (''newUser'', JUser stored),
                  (''token'', JString token),
                  (''decodedJwt'', decodedJwt sv token)])
            \<and> (user_password stored = signup_password b
                 \<longleftrightarrow> bcrypt_hash sv (signup_password b) = signup_password b)))"
proof (cases "UserModel_findOne_email d (signup_email b)")
  case None
  then have "\<forall>existing \<in> set (users d). user_email existing \<noteq> signup_email b"
    by (auto simp: UserModel_findOne_email_def find_None_iff)
  with None show ?thesis
    by (simp add: signup_def Let_def UserModel_save_new_def UserModel_new_def)
next
  case (Some existingUser)
  then have "\<exists>existing \<in> set (users d). user_email existing = signup_email b"
    using find_Some_holds [of "\<lambda>u. user_email u = signup_email b" "users d" existingUser]
    by (auto simp: UserModel_findOne_email_def)
  with Some show ?thesis
    by (auto simp: signup_def)
qed


theorem signup_witness:
  "signup test_services test_db ''u2'' returning =
     (test_db, status_json 400
                 [(''message'', JString ''A profile with this email already exists.'')])
   \<and> signup test_services test_db ''u2'' newcomer =
       (test_db\<lparr>users := [adminUser, testUser,
           \<lparr>user_id = ''u2'', user_email = ''new@test.com'', user_password = ''$2a$10$secret'',
            user_name = ''Newcomer'', user_birthday = None, user_admin = False\<rparr>]\<rparr>,
        status_json 201
          [(''message'', JString ''Thank you for signing up to Three Beans Newcomer!''),
           (''newUser'', JUser
              \<lparr>user_id = ''u2'', user_email = ''new@test.com'', user_password = ''$2a$10$secret'',
               user_name = ''Newcomer'', user_birthday = None, user_admin = False\<rparr>),
           (''token'', JString ''jwt.u2''),
           (''decodedJwt'', JObject [(''id'', JString ''u2'')])])
   \<and> ''$2a$10$secret'' \<noteq> ''secret''"
  using signup_response [of test_db returning test_services "''u2''"]
    signup_response [of test_db newcomer test_services "''u2''"]
  by (simp add: Let_def test_db_def test_services_simps adminUser_def testUser_def
      newcomer_def returning_def)

lemma gate_passes:
  "jwt_verify sv token = Some userId \<Longrightarrow>
   patch_users_update sv (Some token) p d = updateProfile sv d userId p"
  by (simp add: patch_users_update_def authenticated_def verifyJwt_def)

lemma updateProfile_absent:
  "UserModel_findById d userId = None \<Longrightarrow>
   updateProfile sv d userId p = (d, status_json 404 [(''message'', JString ''User not found.'')])"
  by (simp add: updateProfile_def)

lemma updateProfile_found:
  assumes "UserModel_findById d userId = Some u"
  shows "updateProfile sv d userId p =
     (if (case truthy (patch_email p) of None \<Rightarrow> False | Some e \<Rightarrow> email_in_use d userId e)
      then (d, status_json 400 [(''message'', JString ''This email is already in use.'')])
      else
        (let u' = u\<lparr>user_name := (case truthy (patch_name p) of
                                      None \<Rightarrow> user_name u | Some n \<Rightarrow> n),
                      user_email := (case truthy (patch_email p) of
                                       None \<Rightarrow> user_email u | Some e \<Rightarrow> e),
                      user_password := (case truthy (patch_password p) of
                                          None \<Rightarrow> user_password u
                                        | Some pw \<Rightarrow> bcrypt_hash sv pw),
                      user_birthday := (case truthy (patch_birthday p) of
                                          None \<Rightarrow> user_birthday u | Some b \<Rightarrow> Some b)\<rparr>
         in (d\<lparr>users := replaceOne (\<lambda>v. user_id v = userId) u' (users d)\<rparr>,
             status_json 200
               [(''message'', JString ''Profile updated successfully!''),
                (''token'', JString (createJwt sv (Subject_user u')))])))"
proof -
  have id: "user_id u = userId" using findById_id [OF assms] by simp
  show ?thesis
    using assms id
    by (simp add: updateProfile_def update_rest_def UserModel_save_def Let_def
        split: option.splits)
qed

lemma truthy_None_iff: "truthy x = None \<longleftrightarrow> x = None \<or> x = Some []"
  by (simp add: truthy_def split: option.splits)

text \<open>
  C10. On an update request with a verified token, a patch field that is falsy (absent,
  or the empty string) leaves the stored field of the requester as it was; a truthy name,
  email or birthday is stored as given and a truthy password as its hash; the identifier
  and the admin flag keep their values; the documents of other users, the items and the
  categories are untouched. When the answer is not the 200 of a successful update (the
  requester is not stored, or the email is in use) the whole store is unchanged.
\<close>

theorem updateProfile_frame:
  assumes "jwt_verify sv token = Some userId"
  shows
   "(UserModel_findById d userId = None \<longrightarrow> fst (patch_users_update sv (Some token) p d) = d)
    \<and> (\<forall>u. UserModel_findById d userId = Some u \<longrightarrow>
         (let u' = u\<lparr>user_name := (case truthy (patch_name p) of
                                       None \<Rightarrow> user_name u | Some n \<Rightarrow> n),
                       user_email := (case truthy (patch_email p) of
                                        None \<Rightarrow> user_email u | Some e \<Rightarrow> e),
                       user_password := (case truthy (patch_password p) of
                                           None \<Rightarrow> user_password u
                                         | Some pw \<Rightarrow> bcrypt_hash sv pw),
                       user_birthday := (case truthy (patch_birthday p) of
                                           None \<Rightarrow> user_birthday u | Some b \<Rightarrow> Some b)\<rparr>;
              d' = fst (patch_users_update sv (Some token) p d)
          in (if status (snd (patch_users_update sv (Some token) p d)) = 200
              then users d' = replaceOne (\<lambda>v. user_id v = userId) u' (users d)
                   \<and> UserModel_findById d' userId = Some u'
              else d' = d)
             \<and> filter (\<lambda>v. user_id v \<noteq> userId) (users d')
                 = filter (\<lambda>v. user_id v \<noteq> userId) (users d)
             \<and> items d' = items d \<and> categories d' = categories d
             \<and> user_id u' = user_id u \<and> user_admin u' = user_admin u
             \<and> (truthy (patch_name p) = None \<longrightarrow> user_name u' = user_name u)
             \<and> (truthy (patch_email p) = None \<longrightarrow> user_email u' = user_email u)
             \<and> (truthy (patch_password p) = None \<longrightarrow> user_password u' = user_password u)
             \<and> (truthy (patch_birthday p) = None \<longrightarrow> user_birthday u' = user_birthday u)))
    \<and> (truthy x = None \<longleftrightarrow> x = None \<or> x = Some [])"
proof -
  have absent: "fst (patch_users_update sv (Some token) p d) = d"
    if "UserModel_findById d userId = None"
    using that by (simp add: gate_passes [OF assms] updateProfile_absent)
  have found: "let u' = u\<lparr>user_name := (case truthy (patch_name p) of
                                       None \<Rightarrow> user_name u | Some n \<Rightarrow> n),
                       user_email := (case truthy (patch_email p) of
                                        None \<Rightarrow> user_email u | Some e \<Rightarrow> e),
                       user_password := (case truthy (patch_password p) of
                                           None \<Rightarrow> user_password u
                                         | Some pw \<Rightarrow> bcrypt_hash sv pw),
                       user_birthday := (case truthy (patch_birthday p) of
                                           None \<Rightarrow> user_birthday u | Some b \<Rightarrow> Some b)\<rparr>;
              d' = fst (patch_users_update sv (Some token) p d)
          in (if status (snd (patch_users_update sv (Some token) p d)) = 200
              then users d' = replaceOne (\<lambda>v. user_id v = userId) u' (users d)
                   \<and> UserModel_findById d' userId = Some u'
              else d' = d)
             \<and> filter (\<lambda>v. user_id v \<noteq> userId) (users d')
                 = filter (\<lambda>v. user_id v \<noteq> userId) (users d)
             \<and> items d' = items d \<and> categories d' = categories d
             \<and> user_id u' = user_id u \<and> user_admin u' = user_admin u
             \<and> (truthy (patch_name p) = None \<longrightarrow> user_name u' = user_name u)
             \<and> (truthy (patch_email p) = None \<longrightarrow> user_email u' = user_email u)
             \<and> (truthy (patch_password p) = None \<longrightarrow> user_password u' = user_password u)
             \<and> (truthy (patch_birthday p) = None \<longrightarrow> user_birthday u' = user_birthday u)"
    if u: "UserModel_findById d userId = Some u" for u
  proof -
    define u' where "u' = u\<lparr>user_name := (case truthy (patch_name p) of
                                       None \<Rightarrow> user_name u | Some n \<Rightarrow> n),
                       user_email := (case truthy (patch_email p) of
                                        None \<Rightarrow> user_email u | Some e \<Rightarrow> e),
                       user_password := (case truthy (patch_password p) of
                                           None \<Rightarrow> user_password u
                                         | Some pw \<Rightarrow> bcrypt_hash sv pw),
                       user_birthday := (case truthy (patch_birthday p) of
                                           None \<Rightarrow> user_birthday u | Some b \<Rightarrow> Some b)\<rparr>"
    have id: "user_id u = userId" using findById_id [OF u] by simp
    have id': "user_id u' = userId" by (simp add: u'_def id)
    have f: "find (\<lambda>v. user_id v = userId) (users d) = Some u"
      using u by (simp add: UserModel_findById_def)
    have stored: "find (\<lambda>v. user_id v = userId)
        (replaceOne (\<lambda>v. user_id v = userId) u' (users d)) = Some u'"
      using find_replaceOne [OF f, of u'] id' by simp
    have others: "filter (\<lambda>v. user_id v \<noteq> userId)
        (replaceOne (\<lambda>v. user_id v = userId) u' (users d))
        = filter (\<lambda>v. user_id v \<noteq> userId) (users d)"
      using replaceOne_others [of "\<lambda>v. user_id v = userId" u' "users d"] id' by simp
    have fields: "user_id u' = user_id u" "user_admin u' = user_admin u"
      "truthy (patch_name p) = None \<longrightarrow> user_name u' = user_name u"
      "truthy (patch_email p) = None \<longrightarrow> user_email u' = user_email u"
      "truthy (patch_password p) = None \<longrightarrow> user_password u' = user_password u"
      "truthy (patch_birthday p) = None \<longrightarrow> user_birthday u' = user_birthday u"
      by (simp_all add: u'_def)
    have res: "patch_users_update sv (Some token) p d =
       (if (case truthy (patch_email p) of None \<Rightarrow> False | Some e \<Rightarrow> email_in_use d userId e)
        then (d, status_json 400 [(''message'', JString ''This email is already in use.'')])
        else (d\<lparr>users := replaceOne (\<lambda>v. user_id v = userId) u' (users d)\<rparr>,
              status_json 200
                [(''message'', JString ''Profile updated successfully!''),
                 (''token'', JString (createJwt sv (Subject_user u')))]))"
      unfolding gate_passes [OF assms] updateProfile_found [OF u] Let_def u'_def ..
    show ?thesis
      unfolding Let_def u'_def [symmetric] res
      using stored others fields
      by (simp add: status_json_def UserModel_findById_def)
  qed
  show ?thesis
    using absent found truthy_None_iff [of x] by blast
qed

theorem updateProfile_frame_witness:
  "jwt_verify test_services ''jwt.u1'' = Some ''u1''
   \<and> UserModel_findById test_db ''u1'' = Some testUser
   \<and> status (snd (patch_users_update test_services (Some ''jwt.u1'') falsy_patch test_db)) = 200
   \<and> users (fst (patch_users_update test_services (Some ''jwt.u1'') falsy_patch test_db))
       = [adminUser, testUser\<lparr>user_password := ''$2a$10$newpass''\<rparr>]
   \<and> UserModel_findById
         (fst (patch_users_update test_services (Some ''jwt.u1'') falsy_patch test_db)) ''u1''
       = Some (testUser\<lparr>user_password := ''$2a$10$newpass''\<rparr>)
   \<and> truthy (Some []) = None"
proof -
  have v: "jwt_verify test_services ''jwt.u1'' = Some ''u1''"
    by (simp add: test_services_simps)
  have u: "UserModel_findById test_db ''u1'' = Some testUser"
    by (simp add: UserModel_findById_def test_db_def adminUser_def testUser_def)
  have ok: "status (snd (patch_users_update test_services (Some ''jwt.u1'') falsy_patch test_db)) = 200"
    unfolding gate_passes [OF v] updateProfile_found [OF u]
    by (simp add: falsy_patch_def truthy_def Let_def status_json_def)
  note frame = updateProfile_frame [OF v, of test_db falsy_patch "Some []"]
  from frame have falsy: "truthy (Some []) = None" by simp
  from frame u ok
  have "users (fst (patch_users_update test_services (Some ''jwt.u1'') falsy_patch test_db))
          = replaceOne (\<lambda>v. user_id v = ''u1'')
              (testUser\<lparr>user_password := ''$2a$10$newpass''\<rparr>) (users test_db)
        \<and> UserModel_findById
            (fst (patch_users_update test_services (Some ''jwt.u1'') falsy_patch test_db)) ''u1''
          = Some (testUser\<lparr>user_password := ''$2a$10$newpass''\<rparr>)"
    by (simp add: Let_def falsy_patch_def truthy_def test_services_simps)
  then show ?thesis
    using v u ok falsy by (simp add: test_db_def adminUser_def testUser_def)
qed

text \<open>
  C5 (amended). On an update request with a verified token whose identity is a stored
  user and whose patch holds a non-empty email, in a store where no two users share an
  email: the answer is 400 with "This email is already in use." exactly when a user other
  than the requester holds that email. In particular a requester who patches the email
  they already hold is answered 200. Whenever the answer is not that 400, it is 200 and
  the requester's document is saved with the new email and, when the patch holds a
  non-empty password, with the hash of that password.
\<close>

theorem updateProfile_email:
  assumes "jwt_verify sv token = Some userId"
    and "UserModel_findById d userId = Some u"
    and "truthy (patch_email p) = Some email"
    and "distinct (map user_email (users d))"
  shows
   "(patch_users_update sv (Some token) p d =
       (d, status_json 400 [(''message'', JString ''This email is already in use.'')])
     \<longleftrightarrow> (\<exists>v \<in> set (users d). user_email v = email \<and> user_id v \<noteq> userId))
    \<and> (status (snd (patch_users_update sv (Some token) p d)) = 400
         \<longleftrightarrow> (\<exists>v \<in> set (users d). user_email v = email \<and> user_id v \<noteq> userId))
    \<and> (user_email u = email \<longrightarrow> status (snd (patch_users_update sv (Some token) p d)) = 200)
    \<and> (status (snd (patch_users_update sv (Some token) p d)) \<noteq> 400 \<longrightarrow>
         (\<exists>u'. patch_users_update sv (Some token) p d =
                 (d\<lparr>users := replaceOne (\<lambda>v. user_id v = userId) u' (users d)\<rparr>,
                  status_json 200
                    [(''message'', JString ''Profile updated successfully!''),
                     (''token'', JString (createJwt sv (Subject_user u')))])
               \<and> UserModel_findById (fst (patch_users_update sv (Some token) p d)) userId
                   = Some u'
               \<and> user_email u' = email
               \<and> (\<forall>password. truthy (patch_password p) = Some password \<longrightarrow>
                     user_password u' = bcrypt_hash sv password)))"
proof -
  define u' where "u' = u\<lparr>user_name := (case truthy (patch_name p) of
                                       None \<Rightarrow> user_name u | Some n \<Rightarrow> n),
                       user_email := (case truthy (patch_email p) of
                                        None \<Rightarrow> user_email u | Some e \<Rightarrow> e),
                       user_password := (case truthy (patch_password p) of
                                           None \<Rightarrow> user_password u
                                         | Some pw \<Rightarrow> bcrypt_hash sv pw),
                       user_birthday := (case truthy (patch_birthday p) of
                                           None \<Rightarrow> user_birthday u | Some b \<Rightarrow> Some b)\<rparr>"
  let ?held = "\<exists>v \<in> set (users d). user_email v = email \<and> user_id v \<noteq> userId"
  have id: "user_id u = userId" and mem: "u \<in> set (users d)"
    using findById_id [OF assms(2)] by simp_all
  have id': "user_id u' = userId" by (simp add: u'_def id)
  have f: "find (\<lambda>v. user_id v = userId) (users d) = Some u"
    using assms(2) by (simp add: UserModel_findById_def)
  have stored: "find (\<lambda>v. user_id v = userId)
      (replaceOne (\<lambda>v. user_id v = userId) u' (users d)) = Some u'"
    using find_replaceOne [OF f, of u'] id' by simp
  have fields: "user_email u' = email"
    "\<forall>password. truthy (patch_password p) = Some password \<longrightarrow>
       user_password u' = bcrypt_hash sv password"
    by (simp_all add: u'_def assms(3))
  have use: "email_in_use d userId email \<longleftrightarrow> ?held"
    by (rule email_in_use_iff [OF assms(4)])
  have res: "patch_users_update sv (Some token) p d =
       (if ?held
        then (d, status_json 400 [(''message'', JString ''This email is already in use.'')])
        else (d\<lparr>users := replaceOne (\<lambda>v. user_id v = userId) u' (users d)\<rparr>,
              status_json 200
                [(''message'', JString ''Profile updated successfully!''),
                 (''token'', JString (createJwt sv (Subject_user u')))]))"
    unfolding gate_passes [OF assms(1)] updateProfile_found [OF assms(2)] Let_def u'_def
    by (simp add: assms(3) use)
  have own: "\<not> ?held" if "user_email u = email"
  proof
    assume ?held
    then obtain v where v: "v \<in> set (users d)" "user_email v = email" "user_id v \<noteq> userId"
      by blast
    have "inj_on user_email (set (users d))" using assms(4) by (simp add: distinct_map)
    from inj_onD [OF this, of v u] v mem that have "v = u" by simp
    with v(3) id show False by simp
  qed
  have c1: "patch_users_update sv (Some token) p d =
       (d, status_json 400 [(''message'', JString ''This email is already in use.'')])
     \<longleftrightarrow> ?held"
    unfolding res by (simp add: status_json_def)
  have c2: "status (snd (patch_users_update sv (Some token) p d)) = 400 \<longleftrightarrow> ?held"
    unfolding res by (simp add: status_json_def)
  have c3: "user_email u = email \<longrightarrow> status (snd (patch_users_update sv (Some token) p d)) = 200"
    using own unfolding res by (auto simp: status_json_def)
  have c4: "status (snd (patch_users_update sv (Some token) p d)) \<noteq> 400 \<longrightarrow>
         (\<exists>u'. patch_users_update sv (Some token) p d =
                 (d\<lparr>users := replaceOne (\<lambda>v. user_id v = userId) u' (users d)\<rparr>,
                  status_json 200
                    [(''message'', JString ''Profile updated successfully!''),
                     (''token'', JString (createJwt sv (Subject_user u')))])
               \<and> UserModel_findById (fst (patch_users_update sv (Some token) p d)) userId
                   = Some u'
               \<and> user_email u' = email
               \<and> (\<forall>password. truthy (patch_password p) = Some password \<longrightarrow>
                     user_password u' = bcrypt_hash sv password))"
  proof
    assume "status (snd (patch_users_update sv (Some token) p d)) \<noteq> 400"
    with c2 have nh: "\<not> ?held" by simp
    have r: "patch_users_update sv (Some token) p d =
        (d\<lparr>users := replaceOne (\<lambda>v. user_id v = userId) u' (users d)\<rparr>,
              status_json 200
                [(''message'', JString ''Profile updated successfully!''),
                 (''token'', JString (createJwt sv (Subject_user u')))])"
      unfolding res by (rule if_not_P [OF nh])
    have "UserModel_findById (fst (patch_users_update sv (Some token) p d)) userId = Some u'"
      unfolding r using stored by (simp add: UserModel_findById_def)
    with r fields show "\<exists>u'. patch_users_update sv (Some token) p d =
                 (d\<lparr>users := replaceOne (\<lambda>v. user_id v = userId) u' (users d)\<rparr>,
                  status_json 200
                    [(''message'', JString ''Profile updated successfully!''),
                     (''token'', JString (createJwt sv (Subject_user u')))])
               \<and> UserModel_findById (fst (patch_users_update sv (Some token) p d)) userId
                   = Some u'
               \<and> user_email u' = email
               \<and> (\<forall>password. truthy (patch_password p) = Some password \<longrightarrow>
                     user_password u' = bcrypt_hash sv password)"
      by blast
  qed
  from c1 c2 c3 c4 show ?thesis by blast
qed

theorem updateProfile_email_witness:
  "jwt_verify test_services ''jwt.u1'' = Some ''u1''
   \<and> UserModel_findById test_db ''u1'' = Some testUser
   \<and> distinct (map user_email (users test_db))
   \<and> truthy (patch_email taken_email_patch) = Some ''admin@test.com''
   \<and> truthy (patch_email own_email_patch) = Some ''user@test.com''
   \<and> patch_users_update test_services (Some ''jwt.u1'') taken_email_patch test_db =
       (test_db, status_json 400 [(''message'', JString ''This email is already in use.'')])
   \<and> status (snd (patch_users_update test_services (Some ''jwt.u1'') own_email_patch test_db))
       = 200"
proof -
  have v: "jwt_verify test_services ''jwt.u1'' = Some ''u1''"
    by (simp add: test_services_simps)
  have u: "UserModel_findById test_db ''u1'' = Some testUser"
    by (simp add: UserModel_findById_def test_db_def adminUser_def testUser_def)
  have dist: "distinct (map user_email (users test_db))"
    by (simp add: test_db_def adminUser_def testUser_def)
  have taken: "truthy (patch_email taken_email_patch) = Some ''admin@test.com''"
    by (simp add: truthy_def taken_email_patch_def)
  have own: "truthy (patch_email own_email_patch) = Some ''user@test.com''"
    by (simp add: truthy_def own_email_patch_def)
  have held: "\<exists>v \<in> set (users test_db). user_email v = ''admin@test.com'' \<and> user_id v \<noteq> ''u1''"
    by (simp add: test_db_def adminUser_def testUser_def)
  have mine: "user_email testUser = ''user@test.com''"
    by (simp add: testUser_def)
  from updateProfile_email [OF v u taken dist] held
  have refused: "patch_users_update test_services (Some ''jwt.u1'') taken_email_patch test_db =
       (test_db, status_json 400 [(''message'', JString ''This email is already in use.'')])"
    by blast
  from updateProfile_email [OF v u own dist] mine
  have accepted:
    "status (snd (patch_users_update test_services (Some ''jwt.u1'') own_email_patch test_db)) = 200"
    by blast
  from v u dist taken own refused accepted show ?thesis by blast
qed


text \<open>
  C5 as stated fails where the verified identity no longer resolves, as after the user
  deleted their profile: the patch holds the email of another user and the answer is 404
  "User not found.", not 400.
\<close>

theorem updateProfile_unresolved_identity:
  "jwt_verify test_services ''jwt.u7'' = Some ''u7''
   \<and> patch_email taken_email_patch = Some ''admin@test.com''
   \<and> adminUser \<in> set (users test_db)
   \<and> user_email adminUser = ''admin@test.com''
   \<and> user_id adminUser \<noteq> ''u7''
   \<and> patch_users_update test_services (Some ''jwt.u7'') taken_email_patch test_db =
       (test_db, status_json 404 [(''message'', JString ''User not found.'')])
   \<and> status (snd (patch_users_update test_services (Some ''jwt.u7'') taken_email_patch test_db))
       \<noteq> 400"
proof -
  have v: "jwt_verify test_services ''jwt.u7'' = Some ''u7''"
    by (simp add: test_services_simps)
  have u: "UserModel_findById test_db ''u7'' = None"
    by (simp add: UserModel_findById_def test_db_def adminUser_def testUser_def)
  show ?thesis
    unfolding gate_passes [OF v] updateProfile_absent [OF u]
    by (simp add: v taken_email_patch_def test_db_def adminUser_def status_json_def)
qed

section \<open>Unmatched requests and forwarded errors\<close>





section \<open>The item schema at write time\<close>

text \<open>
  C8 (amended). Every item accepted for persistence has a price, a document without one
  being rejected at write time; the schema sets no bound on the price, so that whether a
  document is accepted does not depend on the value of its price.
\<close>

theorem itemSchema_price:
  "(ItemModel_save d i = Inr d' \<longrightarrow> item_price i \<noteq> None \<and> items d' = items d @ [i])
   \<and> (item_price i = None \<longrightarrow>
        ItemModel_save d i = Inl (ValidationError (itemSchema_validate i))
        \<and> ''price'' \<in> set (itemSchema_validate i))
   \<and> isl (ItemModel_save d (i\<lparr>item_price := Some p\<rparr>))
       = isl (ItemModel_save d (i\<lparr>item_price := Some q\<rparr>))"
  by (auto simp: ItemModel_save_def itemSchema_validate_def required_value_def
      split: if_splits)

theorem itemSchema_price_witness:
  "ItemModel_save test_db free_lunch = Inr (test_db\<lparr>items := [testItem, free_lunch]\<rparr>)
   \<and> item_price free_lunch = Some (- 1)
   \<and> ItemModel_save test_db (free_lunch\<lparr>item_price := None\<rparr>) = Inl (ValidationError [''price''])"
proof -
  have s: "ItemModel_save test_db free_lunch = Inr (test_db\<lparr>items := [testItem, free_lunch]\<rparr>)"
    by (simp add: ItemModel_save_def itemSchema_validate_def required_value_def
        required_string_def test_db_def free_lunch_def testItem_def)
  have v: "itemSchema_validate (free_lunch\<lparr>item_price := None\<rparr>) = [''price'']"
    by (simp add: itemSchema_validate_def required_value_def required_string_def free_lunch_def)
  from itemSchema_price [of test_db free_lunch "test_db\<lparr>items := [testItem, free_lunch]\<rparr>"] s
  have p: "item_price free_lunch \<noteq> None" by simp
  from itemSchema_price [of test_db "free_lunch\<lparr>item_price := None\<rparr>"] v
  have r: "ItemModel_save test_db (free_lunch\<lparr>item_price := None\<rparr>)
             = Inl (ValidationError [''price''])"
    by simp
  from s p r show ?thesis by (simp add: free_lunch_def)
qed

text \<open>
  C8 as stated fails for an item with the price \<open>-1\<close>, which the schema accepts and the
  store then holds.
\<close>

theorem negative_price_accepted:
  "item_price free_lunch = Some (- 1)
   \<and> (- 1 :: rat) < 0
   \<and> ItemModel_save test_db free_lunch = Inr (test_db\<lparr>items := [testItem, free_lunch]\<rparr>)
   \<and> free_lunch \<in> set (items (test_db\<lparr>items := [testItem, free_lunch]\<rparr>))"
  by (simp add: ItemModel_save_def itemSchema_validate_def required_value_def
      required_string_def test_db_def free_lunch_def testItem_def)

text \<open>
  The item that \<^verbatim>\<open>beforeEach\<close> of the tests saves has no quantity; the schema, which
  requires the path, rejects it.
\<close>

lemma testItem_rejected:
  "ItemModel_save \<lparr>users = [], items = [], categories = [testCategory]\<rparr> testItem
     = Inl (ValidationError [''quantity''])"
  by (simp add: ItemModel_save_def itemSchema_validate_def required_value_def
      required_string_def testItem_def)

end
